theory Spec2Isabelle
  imports Complex_Main "HOL-Library.AList"
begin

section \<open>JavaScript numbers\<close>

text \<open>
  Every quantity of the calculator is a JavaScript number. The model keeps the values a
  number can take apart from the finite ones, because the code tests for them
  (\<^verbatim>\<open>isNaN\<close> in the validator) and produces them (a division by a zero market
  price): a number is a finite real, one of the two infinities, or NaN. On finite
  numbers \<open>jadd\<close>, \<open>jmul\<close>, \<open>jdiv\<close> and \<open>jpow\<close> give the exact real result, where
  the code rounds it to a double and overflows to an infinity; a zero divisor is taken as
  \<^verbatim>\<open>+0\<close>. The properties below are therefore stated through these operations, as the
  code composes them, and not as closed expressions over the reals.
\<close>

datatype jsnum = Fin real | PInf | NInf | NaN

fun jneg :: "jsnum \<Rightarrow> jsnum" where
  "jneg (Fin a) = Fin (- a)"
| "jneg PInf = NInf"
| "jneg NInf = PInf"
| "jneg NaN = NaN"

fun jadd :: "jsnum \<Rightarrow> jsnum \<Rightarrow> jsnum" where
  "jadd NaN _ = NaN"
| "jadd _ NaN = NaN"
| "jadd (Fin a) (Fin b) = Fin (a + b)"
| "jadd (Fin a) PInf = PInf"
| "jadd (Fin a) NInf = NInf"
| "jadd PInf (Fin b) = PInf"
| "jadd NInf (Fin b) = NInf"
| "jadd PInf PInf = PInf"
| "jadd NInf NInf = NInf"
| "jadd PInf NInf = NaN"
| "jadd NInf PInf = NaN"

definition jsub :: "jsnum \<Rightarrow> jsnum \<Rightarrow> jsnum" where
  "jsub a b = jadd a (jneg b)"

text \<open>The sign of an infinite product or quotient: \<open>signed True\<close> is positive.\<close>

definition signed :: "bool \<Rightarrow> jsnum" where
  "signed pos = (if pos then PInf else NInf)"

fun jmul :: "jsnum \<Rightarrow> jsnum \<Rightarrow> jsnum" where
  "jmul NaN _ = NaN"
| "jmul _ NaN = NaN"
| "jmul (Fin a) (Fin b) = Fin (a * b)"
| "jmul (Fin a) PInf = (if a = 0 then NaN else signed (0 < a))"
| "jmul (Fin a) NInf = (if a = 0 then NaN else signed (a < 0))"
| "jmul PInf (Fin b) = (if b = 0 then NaN else signed (0 < b))"
| "jmul NInf (Fin b) = (if b = 0 then NaN else signed (b < 0))"
| "jmul PInf PInf = PInf"
| "jmul NInf NInf = PInf"
| "jmul PInf NInf = NInf"
| "jmul NInf PInf = NInf"

fun jdiv :: "jsnum \<Rightarrow> jsnum \<Rightarrow> jsnum" where
  "jdiv NaN _ = NaN"
| "jdiv _ NaN = NaN"
| "jdiv (Fin a) (Fin b) =
     (if b = 0 then (if a = 0 then NaN else signed (0 < a)) else Fin (a / b))"
| "jdiv (Fin a) PInf = Fin 0"
| "jdiv (Fin a) NInf = Fin 0"
| "jdiv PInf (Fin b) = signed (0 \<le> b)"
| "jdiv NInf (Fin b) = signed (b < 0)"
| "jdiv PInf PInf = NaN"
| "jdiv PInf NInf = NaN"
| "jdiv NInf PInf = NaN"
| "jdiv NInf NInf = NaN"

text \<open>
  \<^verbatim>\<open>Math.pow(base, n)\<close> for an exponent that is a non-negative integer, the only
  kind the projection loop passes. An exponent of zero gives 1 for every base, NaN
  included.
\<close>

fun jpow :: "jsnum \<Rightarrow> nat \<Rightarrow> jsnum" where
  "jpow (Fin a) n = Fin (a ^ n)"
| "jpow PInf n = (if n = 0 then Fin 1 else PInf)"
| "jpow NInf n = (if n = 0 then Fin 1 else signed (even n))"
| "jpow NaN n = (if n = 0 then Fin 1 else NaN)"

text \<open>The comparisons: each is false as soon as one side is NaN.\<close>

fun jlt :: "jsnum \<Rightarrow> jsnum \<Rightarrow> bool" where
  "jlt NaN _ = False"
| "jlt _ NaN = False"
| "jlt (Fin a) (Fin b) = (a < b)"
| "jlt (Fin a) PInf = True"
| "jlt (Fin a) NInf = False"
| "jlt PInf _ = False"
| "jlt NInf (Fin b) = True"
| "jlt NInf PInf = True"
| "jlt NInf NInf = False"

definition jgt :: "jsnum \<Rightarrow> jsnum \<Rightarrow> bool" where
  "jgt a b = jlt b a"

definition jge :: "jsnum \<Rightarrow> jsnum \<Rightarrow> bool" where
  "jge a b = (a \<noteq> NaN \<and> b \<noteq> NaN \<and> \<not> jlt a b)"

definition isNaN :: "jsnum \<Rightarrow> bool" where
  "isNaN a = (a = NaN)"

section \<open>Calculation engine\<close>

text \<open>The object returned by \<^verbatim>\<open>calculateRequiredReturn\<close>.\<close>

record returnData =
  requiredReturn :: jsnum
  requiredReturnDecimal :: jsnum
  d1 :: jsnum
  dividendYield :: jsnum
  dividendYieldDecimal :: jsnum
  growthRateDecimal :: jsnum
  isValid :: bool

text \<open>
  \<^verbatim>\<open>calculateRequiredReturn({ marketPrice, currentDividend, growthRate })\<close>: the
  destructured parameter object is the three arguments. The local names of the source are
  kept; \<open>requiredReturnPct\<close> and \<open>dividendYieldPct\<close> are the percentages.
\<close>

definition calculateRequiredReturn :: "jsnum \<Rightarrow> jsnum \<Rightarrow> jsnum \<Rightarrow> returnData" where
  "calculateRequiredReturn marketPrice currentDividend growthRate =
     (let g = jdiv growthRate (Fin 100);
          d1 = jmul currentDividend (jadd (Fin 1) g);
          dividendYield = jdiv d1 marketPrice;
          requiredReturn = jadd dividendYield g;
          requiredReturnPct = jmul requiredReturn (Fin 100);
          dividendYieldPct = jmul dividendYield (Fin 100)
      in \<lparr> requiredReturn = requiredReturnPct,
           requiredReturnDecimal = requiredReturn,
           d1 = d1,
           dividendYield = dividendYieldPct,
           dividendYieldDecimal = dividendYield,
           growthRateDecimal = g,
           isValid = (jgt requiredReturn (Fin 0) \<and> jlt g requiredReturn) \<rparr>)"

text \<open>One element of the projection returned by \<^verbatim>\<open>generateCashFlows\<close>.\<close>

record cashFlow =
  year :: int
  dividend :: jsnum
  investment :: jsnum
  totalCashFlow :: jsnum
  cumulativeCashFlow :: jsnum

text \<open>
  The \<^verbatim>\<open>for (let year = 1; year <= years; year++)\<close> loop, with the array built so
  far and the running \<open>cumulativeTotal\<close> as its state. \<open>years\<close> is an integer; the
  loop counter starts at 1, so the exponent handed to \<^verbatim>\<open>Math.pow\<close> is positive.
\<close>

function cashFlowLoop ::
  "jsnum \<Rightarrow> jsnum \<Rightarrow> int \<Rightarrow> int \<Rightarrow> jsnum \<Rightarrow> cashFlow list \<Rightarrow> cashFlow list" where
  "cashFlowLoop currentDividend g years yr cumulativeTotal cashFlows =
     (if yr \<le> years then
        (let dividend = jmul currentDividend (jpow (jadd (Fin 1) g) (nat yr));
             cumulativeTotal = jadd cumulativeTotal dividend
         in cashFlowLoop currentDividend g years (yr + 1) cumulativeTotal
              (cashFlows @ [\<lparr> year = yr, dividend = dividend, investment = Fin 0,
                              totalCashFlow = dividend,
                              cumulativeCashFlow = cumulativeTotal \<rparr>]))
      else cashFlows)"
  by pat_completeness auto
termination
  by (relation "measure (\<lambda>(cd, g, years, yr, ct, cfs). nat (years + 1 - yr))") auto

text \<open>
  The defining equation of the loop mentions the loop itself, so it is taken out of the
  simplifier and unfolded one iteration at a time.
\<close>

declare cashFlowLoop.simps [simp del]

text \<open>
  \<^verbatim>\<open>generateCashFlows({ marketPrice, currentDividend, growthRateDecimal, years = 10 })\<close>;
  the parameter \<open>growthRateDecimal\<close> is written \<open>g\<close>. The call that leaves
  \<open>years\<close> out, and so takes its default, is \<open>generateCashFlowsDefault\<close>.
\<close>

definition generateCashFlows :: "jsnum \<Rightarrow> jsnum \<Rightarrow> jsnum \<Rightarrow> int \<Rightarrow> cashFlow list" where
  "generateCashFlows marketPrice currentDividend g years =
     cashFlowLoop currentDividend g years 1 (jneg marketPrice)
       [\<lparr> year = 0, dividend = Fin 0, investment = jneg marketPrice,
          totalCashFlow = jneg marketPrice, cumulativeCashFlow = jneg marketPrice \<rparr>]"

definition generateCashFlowsDefault :: "jsnum \<Rightarrow> jsnum \<Rightarrow> jsnum \<Rightarrow> cashFlow list" where
  "generateCashFlowsDefault marketPrice currentDividend g =
     generateCashFlows marketPrice currentDividend g 10"

text \<open>
  The sum of the \<open>totalCashFlow\<close> values of a sequence of points, added up from the
  first point on, starting at zero. It is not a function of the source: the running-sum
  property of the projection is stated with it.
\<close>

definition sumTotalCashFlow_spec :: "cashFlow list \<Rightarrow> jsnum" where
  "sumTotalCashFlow_spec cfs = foldl jadd (Fin 0) (map totalCashFlow cfs)"

text \<open>
  The object returned by \<^verbatim>\<open>calculateRequiredReturnMetrics\<close>: the fields of
  \<open>returnData\<close> spread into it, and \<open>cashFlows\<close>.
\<close>

record metrics = returnData +
  cashFlows :: "cashFlow list"

definition calculateRequiredReturnMetrics :: "jsnum \<Rightarrow> jsnum \<Rightarrow> jsnum \<Rightarrow> metrics" where
  "calculateRequiredReturnMetrics marketPrice currentDividend growthRate =
     (let returnData = calculateRequiredReturn marketPrice currentDividend growthRate;
          cashFlows = generateCashFlows marketPrice currentDividend
                        (growthRateDecimal returnData) 10
      in returnData.extend returnData \<lparr> cashFlows = cashFlows \<rparr>)"

text \<open>
  \<^verbatim>\<open>calculateGordonPrice(d1, r, g)\<close> throws when \<open>g >= r\<close>; the exception is the
  left summand.
\<close>

datatype error = Error string

definition calculateGordonPrice :: "jsnum \<Rightarrow> jsnum \<Rightarrow> jsnum \<Rightarrow> error + jsnum" where
  "calculateGordonPrice d1' r g =
     (if jge g r then Inl (Error ''Growth rate must be less than required return'')
      else Inr (jdiv d1' (jsub r g)))"

section \<open>Validator\<close>

text \<open>
  The value handed to \<^verbatim>\<open>validateField\<close> is documented as a number. The model
  admits a number and the three other values the code tests for: \<^verbatim>\<open>undefined\<close> (a
  missing property), \<^verbatim>\<open>null\<close> and the empty string. \<open>toNumber\<close> is the conversion
  that \<^verbatim>\<open>isNaN\<close> and the relational operators apply to such a value.
\<close>

datatype jsval = Undefined | Null | EmptyString | Num jsnum

fun toNumber :: "jsval \<Rightarrow> jsnum" where
  "toNumber Undefined = NaN"
| "toNumber Null = Fin 0"
| "toNumber EmptyString = Fin 0"
| "toNumber (Num n) = n"

text \<open>
  An entry of \<^verbatim>\<open>VALIDATION_RULES\<close>. The bounds of the table are non-negative integer
  literals; a bound, the prefix and the unit may be left out of an entry, hence the
  options.
\<close>

record rule =
  min_rule :: "nat option"
  max_rule :: "nat option"
  required :: bool
  label :: string
  prefix :: "string option"
  unit :: "string option"

definition VALIDATION_RULES :: "(string \<times> rule) list" where
  "VALIDATION_RULES =
     [(''marketPrice'',
         \<lparr> min_rule = Some 1, max_rule = Some 500, required = True,
           label = ''Market price'', prefix = Some ''USD'', unit = None \<rparr>),
      (''currentDividend'',
         \<lparr> min_rule = Some 0, max_rule = Some 50, required = True,
           label = ''Current dividend'', prefix = Some ''USD'', unit = None \<rparr>),
      (''growthRate'',
         \<lparr> min_rule = Some 0, max_rule = Some 25, required = True,
           label = ''Growth rate'', prefix = None, unit = Some ''%'' \<rparr>)]"

text \<open>The decimal digits of a bound, as a template literal prints it.\<close>

definition digit :: "nat \<Rightarrow> char" where
  "digit d = ''0123456789'' ! d"

fun showNat :: "nat \<Rightarrow> string" where
  "showNat n = (if n < 10 then [digit n] else showNat (n div 10) @ [digit (n mod 10)])"

text \<open>
  A string is truthy when it is not empty; a missing bound prints as \<^verbatim>\<open>undefined\<close>.
\<close>

definition showBound :: "nat option \<Rightarrow> string" where
  "showBound b = (case b of None \<Rightarrow> ''undefined'' | Some n \<Rightarrow> showNat n)"

definition display :: "rule \<Rightarrow> nat option \<Rightarrow> string" where
  "display rules b =
     (case prefix rules of
        Some p \<Rightarrow> (if p \<noteq> [] then p @ '' '' @ showBound b
                   else showBound b @ (case unit rules of Some u \<Rightarrow> u | None \<Rightarrow> []))
      | None \<Rightarrow> showBound b @ (case unit rules of Some u \<Rightarrow> u | None \<Rightarrow> []))"

definition rangeMessage :: "rule \<Rightarrow> string" where
  "rangeMessage rules =
     label rules @ '' must be between '' @ display rules (min_rule rules) @ '' and ''
       @ display rules (max_rule rules)"

text \<open>\<^verbatim>\<open>validateField(field, value)\<close>: \<open>None\<close> is the \<^verbatim>\<open>null\<close> it returns.\<close>

definition validateField :: "string \<Rightarrow> jsval \<Rightarrow> string option" where
  "validateField field val =
     (case map_of VALIDATION_RULES field of
        None \<Rightarrow> None
      | Some rules \<Rightarrow>
          if required rules \<and>
             (val = EmptyString \<or> val = Undefined \<or> val = Null \<or> isNaN (toNumber val))
          then Some (label rules @ '' is required'')
          else if min_rule rules \<noteq> None \<and>
                  jlt (toNumber val) (Fin (real (the (min_rule rules))))
          then Some (rangeMessage rules)
          else if max_rule rules \<noteq> None \<and>
                  jgt (toNumber val) (Fin (real (the (max_rule rules))))
          then Some (rangeMessage rules)
          else None)"

text \<open>
  An errors object: field names with their messages, in insertion order.
  \<^verbatim>\<open>if (error)\<close> tests a message for truthiness.
\<close>

type_synonym errorsObj = "(string \<times> string) list"

definition truthy :: "string option \<Rightarrow> bool" where
  "truthy e = (case e of None \<Rightarrow> False | Some m \<Rightarrow> m \<noteq> [])"

text \<open>
  \<^verbatim>\<open>validateAllInputs(inputs)\<close>: the \<^verbatim>\<open>forEach\<close> over the rule names is the fold;
  a property missing from \<open>inputs\<close> reads as \<^verbatim>\<open>undefined\<close>.
\<close>

definition validateAllInputs :: "(string \<times> jsval) list \<Rightarrow> errorsObj" where
  "validateAllInputs inputs =
     foldl (\<lambda>errors field.
              (let error = validateField field
                             (case map_of inputs field of None \<Rightarrow> Undefined | Some v \<Rightarrow> v)
               in if truthy error then AList.update field (the error) errors else errors))
       [] (map fst VALIDATION_RULES)"

definition hasErrors :: "errorsObj \<Rightarrow> bool" where
  "hasErrors errors = (length (map fst errors) > 0)"

section \<open>State store\<close>

text \<open>
  The \<^verbatim>\<open>state\<close> object of the module, passed explicitly. Its properties have the
  types of the values the object is created with; \<open>None\<close> is the \<^verbatim>\<open>null\<close> of
  \<open>returnCalculations\<close>. An observer is a value of the type \<open>'f\<close>, the name of a
  function; what a call of it does is given apart, by \<open>observers\<close> below. \<open>others\<close>
  holds the properties that a merge adds beyond the seven of the initial object.
\<close>

record 'f state =
  marketPrice :: jsnum
  currentDividend :: jsnum
  growthRate :: jsnum
  viewMode :: string
  errors :: errorsObj
  returnCalculations :: "metrics option"
  listeners :: "'f list"
  others :: "(string \<times> jsval) list"

definition initialState :: "'f state" where
  "initialState =
     \<lparr> marketPrice = Fin 54.56, currentDividend = Fin 5.10, growthRate = Fin 6.40,
       viewMode = ''chart'', errors = [], returnCalculations = None, listeners = [],
       others = [] \<rparr>"

text \<open>
  One property of a partial-update object, with a value of the property's type. \<open>Other\<close>
  is a property under any further key, as the \<open>x\<close> of \<^verbatim>\<open>setState({x: 1})\<close>; an update
  that puts a value of another type under one of the seven names of the initial object is
  not among the updates modelled. \<open>key\<close> is the name of the property.
\<close>

datatype 'f property =
    MarketPrice jsnum
  | CurrentDividend jsnum
  | GrowthRate jsnum
  | ViewMode string
  | Errors errorsObj
  | ReturnCalculations "metrics option"
  | Listeners "'f list"
  | Other string jsval


text \<open>
  \<^verbatim>\<open>Object.assign(state, updates)\<close> copies the properties of \<open>updates\<close> one by one,
  in their order; \<open>assign\<close> is one such copy.
\<close>

fun assign :: "'f state \<Rightarrow> 'f property \<Rightarrow> 'f state" where
  "assign s (MarketPrice v) = s\<lparr> marketPrice := v \<rparr>"
| "assign s (CurrentDividend v) = s\<lparr> currentDividend := v \<rparr>"
| "assign s (GrowthRate v) = s\<lparr> growthRate := v \<rparr>"
| "assign s (ViewMode v) = s\<lparr> viewMode := v \<rparr>"
| "assign s (Errors v) = s\<lparr> errors := v \<rparr>"
| "assign s (ReturnCalculations v) = s\<lparr> returnCalculations := v \<rparr>"
| "assign s (Listeners v) = s\<lparr> listeners := v \<rparr>"
| "assign s (Other k v) = s\<lparr> others := AList.update k v (others s) \<rparr>"


definition Object_assign :: "'f state \<Rightarrow> 'f property list \<Rightarrow> 'f state" where
  "Object_assign s updates = foldl assign s updates"

text \<open>
  What a call \<^verbatim>\<open>fn(state)\<close> of an observer does to the store: the observer returns or
  throws, and in either case leaves the state object as the effect says (the state it
  was given, when it changed nothing; a change covers a nested \<^verbatim>\<open>setState\<close> too, whose
  own calls are part of the observer's run and are not recorded). \<open>observers\<close> gives the
  effect of each observer on each state.
\<close>

datatype 'f effect = Returns "'f state" | Throws "'f state"

type_synonym 'f observers = "'f \<Rightarrow> 'f state \<Rightarrow> 'f effect"

datatype completion = Normal | Thrown

type_synonym 'f calls = "('f \<times> 'f state) list"

text \<open>
  \<^verbatim>\<open>state.listeners.forEach(fn => fn(state))\<close>: the observers are called in the order
  of the array, each with the state as the calls before it left it. Nothing catches an
  exception here, so an observer that throws ends the walk: the observers after it are
  not called and \<^verbatim>\<open>forEach\<close> completes by throwing. The result is the state, the calls
  made (observer and state received) and the completion. The walk is over the array as
  it was when the walk began: an observer that removes or overwrites an element of the
  array during the walk is not modelled.
\<close>

fun forEach :: "'f observers \<Rightarrow> 'f list \<Rightarrow> 'f state \<Rightarrow> 'f state \<times> 'f calls \<times> completion" where
  "forEach run [] state = (state, [], Normal)"
| "forEach run (fn # fns) state =
     (case run fn state of
        Throws state' \<Rightarrow> (state', [(fn, state)], Thrown)
      | Returns state' \<Rightarrow>
          (let (state'', calls, c) = forEach run fns state'
           in (state'', (fn, state) # calls, c)))"

text \<open>
  \<^verbatim>\<open>setState(updates)\<close>: the merge, then the walk over the \<open>listeners\<close> property of the
  merged state.
\<close>

definition setState ::
  "'f observers \<Rightarrow> 'f state \<Rightarrow> 'f property list \<Rightarrow> 'f state \<times> 'f calls \<times> completion" where
  "setState run state updates =
     (let state' = Object_assign state updates
      in forEach run (listeners state') state')"

definition subscribe :: "'f state \<Rightarrow> 'f \<Rightarrow> 'f state" where
  "subscribe state fn = state\<lparr> listeners := listeners state @ [fn] \<rparr>"

text \<open>
  Three families of observers for the examples. Under \<open>inert\<close> every observer reads
  the state and returns, as the renderer \<^verbatim>\<open>handleStateChange\<close> that the application
  subscribes does when the page has its elements. Under \<open>firstThrows\<close> the observer 1
  throws, and under \<open>firstDeletesX\<close> the observer 1 runs \<^verbatim>\<open>delete state.x\<close> and
  returns; the other observers are inert.
\<close>

definition inert :: "'f observers" where
  "inert fn state = Returns state"



section \<open>Update orchestrator\<close>

text \<open>
  \<^verbatim>\<open>updateCalculations()\<close>. The first \<^verbatim>\<open>setState\<close> is outside the \<^verbatim>\<open>try\<close>, so
  what an observer throws there leaves the function. Inside the \<^verbatim>\<open>try\<close> the arithmetic
  of \<^verbatim>\<open>calculateRequiredReturnMetrics\<close> throws nothing, but the observers that
  \<^verbatim>\<open>setState\<close> calls may: the \<^verbatim>\<open>catch\<close> clause then runs
  \<^verbatim>\<open>setState({ returnCalculations: null })\<close>, which calls the observers again.
\<close>

definition updateCalculations ::
  "'f observers \<Rightarrow> 'f state \<Rightarrow> 'f state \<times> 'f calls \<times> completion" where
  "updateCalculations run state =
     (if hasErrors (errors state) then setState run state [ReturnCalculations None]
      else (let calculations = calculateRequiredReturnMetrics (marketPrice state)
                                 (currentDividend state) (growthRate state);
                (state1, calls1, c1) = setState run state [ReturnCalculations (Some calculations)]
            in if c1 = Thrown
               then (let (state2, calls2, c2) = setState run state1 [ReturnCalculations None]
                     in (state2, calls1 @ calls2, c2))
               else (state1, calls1, Normal)))"

text \<open>
  The three inputs that \<^verbatim>\<open>setupInputListeners\<close> wires, and the property that the
  computed key \<^verbatim>\<open>[field]\<close> of the update names for each of them.
\<close>

definition inputs :: "(string \<times> string) list" where
  "inputs = [(''market-price'', ''marketPrice''),
             (''current-dividend'', ''currentDividend''),
             (''growth-rate'', ''growthRate'')]"

definition fieldProp :: "string \<Rightarrow> jsnum \<Rightarrow> 'f property" where
  "fieldProp field v =
     (if field = ''marketPrice'' then MarketPrice v
      else if field = ''currentDividend'' then CurrentDividend v
      else if field = ''growthRate'' then GrowthRate v
      else Other field (Num v))"

text \<open>
  The body of \<open>debouncedUpdate\<close>, which runs when the timer of an input fires. \<open>val\<close>
  is the number that \<^verbatim>\<open>parseFloat(input.value)\<close> gave. The two calls that only touch
  the page (\<^verbatim>\<open>updateFieldError\<close>, \<^verbatim>\<open>updateValidationSummary\<close>) are left out. What
  an observer throws during the \<^verbatim>\<open>setState\<close> of the handler ends the handler.
\<close>

definition debouncedUpdate ::
  "'f observers \<Rightarrow> string \<Rightarrow> jsnum \<Rightarrow> 'f state \<Rightarrow> 'f state \<times> 'f calls \<times> completion" where
  "debouncedUpdate run field val state =
     (let error = validateField field (Num val);
          errors' = (if truthy error then AList.update field (the error) (errors state)
                     else AList.delete field (errors state));
          (state1, calls1, c1) = setState run state [fieldProp field val, Errors errors']
      in if c1 = Thrown then (state1, calls1, Thrown)
         else if \<not> hasErrors errors'
         then (let (state2, calls2, c2) = updateCalculations run state1
               in (state2, calls1 @ calls2, c2))
         else (state1, calls1, Normal))"

section \<open>Properties of the arithmetic\<close>

text \<open>Adding to zero and raising to the power 1 change no number, finite or not.\<close>

lemma jadd_zero: "jadd (Fin 0) x = x"
  by (cases x) auto

lemma jpow_one: "jpow x (Suc 0) = x"
  by (cases x) (auto simp: signed_def)

section \<open>The projection loop\<close>

lemma cashFlowLoop_length:
  "length (cashFlowLoop cd g years yr ct cfs) = length cfs + nat (years + 1 - yr)"
proof (induction cd g years yr ct cfs rule: cashFlowLoop.induct)
  case (1 cd g years yr ct cfs)
  show ?case
  proof (cases "yr \<le> years")
    case True
    with "1.IH" [OF True refl refl] show ?thesis
      by (subst cashFlowLoop.simps) (simp add: Let_def nat_add_distrib)
  next
    case False
    then show ?thesis by (subst cashFlowLoop.simps) simp
  qed
qed

lemma cashFlowLoop_keeps:
  "i < length cfs \<Longrightarrow> cashFlowLoop cd g years yr ct cfs ! i = cfs ! i"
proof (induction cd g years yr ct cfs rule: cashFlowLoop.induct)
  case (1 cd g years yr ct cfs)
  show ?case
  proof (cases "yr \<le> years")
    case True
    with "1.IH" [OF True refl refl] "1.prems" show ?thesis
      by (subst cashFlowLoop.simps) (simp add: Let_def nth_append)
  next
    case False
    then show ?thesis by (subst cashFlowLoop.simps) simp
  qed
qed

lemma cashFlowLoop_point:
  "yr + int j \<le> years \<Longrightarrow>
   year (cashFlowLoop cd g years yr ct cfs ! (length cfs + j)) = yr + int j \<and>
   dividend (cashFlowLoop cd g years yr ct cfs ! (length cfs + j)) =
     jmul cd (jpow (jadd (Fin 1) g) (nat (yr + int j))) \<and>
   investment (cashFlowLoop cd g years yr ct cfs ! (length cfs + j)) = Fin 0 \<and>
   totalCashFlow (cashFlowLoop cd g years yr ct cfs ! (length cfs + j)) =
     jmul cd (jpow (jadd (Fin 1) g) (nat (yr + int j)))"
proof (induction cd g years yr ct cfs arbitrary: j rule: cashFlowLoop.induct)
  case (1 cd g years yr ct cfs)
  from "1.prems" have le: "yr \<le> years" by simp
  show ?case
  proof (cases j)
    case 0
    then show ?thesis using le
      by (subst (1 2 3 4) cashFlowLoop.simps) (simp add: Let_def cashFlowLoop_keeps)
  next
    case (Suc k)
    with "1.prems" have "yr + 1 + int k \<le> years" by simp
    from "1.IH" [OF le refl refl this] Suc le show ?thesis
      by (subst (1 2 3 4) cashFlowLoop.simps) (simp add: Let_def add.commute add.left_commute)
  qed
qed

lemma sumTotalCashFlow_spec_snoc:
  "sumTotalCashFlow_spec (cfs @ [p]) = jadd (sumTotalCashFlow_spec cfs) (totalCashFlow p)"
  by (simp add: sumTotalCashFlow_spec_def)

lemma cashFlowLoop_running:
  "sumTotalCashFlow_spec cfs = ct \<Longrightarrow>
   (\<And>n. n < length cfs \<Longrightarrow> cumulativeCashFlow (cfs ! n) = sumTotalCashFlow_spec (take (Suc n) cfs)) \<Longrightarrow>
   n < length (cashFlowLoop cd g years yr ct cfs) \<Longrightarrow>
   cumulativeCashFlow (cashFlowLoop cd g years yr ct cfs ! n) =
     sumTotalCashFlow_spec (take (Suc n) (cashFlowLoop cd g years yr ct cfs))"
proof (induction cd g years yr ct cfs rule: cashFlowLoop.induct)
  case (1 cd g years yr ct cfs)
  show ?case
  proof (cases "yr \<le> years")
    case True
    let ?dv = "jmul cd (jpow (jadd (Fin 1) g) (nat yr))"
    let ?p = "\<lparr> year = yr, dividend = ?dv, investment = Fin 0,
                totalCashFlow = ?dv, cumulativeCashFlow = jadd ct ?dv \<rparr>"
    have unfold: "cashFlowLoop cd g years yr ct cfs =
                  cashFlowLoop cd g years (yr + 1) (jadd ct ?dv) (cfs @ [?p])"
      using True by (subst cashFlowLoop.simps) (simp add: Let_def)
    have s: "sumTotalCashFlow_spec (cfs @ [?p]) = jadd ct ?dv"
      using "1.prems"(1) by (simp add: sumTotalCashFlow_spec_snoc)
    have inv: "cumulativeCashFlow ((cfs @ [?p]) ! m) =
               sumTotalCashFlow_spec (take (Suc m) (cfs @ [?p]))"
      if "m < length (cfs @ [?p])" for m
    proof (cases "m < length cfs")
      case True
      then show ?thesis using "1.prems"(2) [OF True] by (simp add: nth_append)
    next
      case False
      with that have "m = length cfs" by simp
      then show ?thesis using s by simp
    qed
    from "1.prems"(3) have "n < length (cashFlowLoop cd g years (yr + 1) (jadd ct ?dv) (cfs @ [?p]))"
      by (simp only: unfold)
    from "1.IH" [OF True refl refl s inv this] show ?thesis
      by (simp only: unfold)
  next
    case False
    then have "cashFlowLoop cd g years yr ct cfs = cfs"
      by (subst cashFlowLoop.simps) simp
    with "1.prems" show ?thesis by simp
  qed
qed


lemma jlt_not_jge: "jlt a b \<Longrightarrow> \<not> jge a b"
  by (simp add: jge_def)

lemma generateCashFlows_length:
  "0 \<le> years \<Longrightarrow> length (generateCashFlows mp cd g years) = nat years + 1"
  by (simp add: generateCashFlows_def cashFlowLoop_length)

lemma generateCashFlows_first:
  "generateCashFlows mp cd g years ! 0 =
     \<lparr> year = 0, dividend = Fin 0, investment = jneg mp,
       totalCashFlow = jneg mp, cumulativeCashFlow = jneg mp \<rparr>"
  by (simp add: generateCashFlows_def cashFlowLoop_keeps)

lemma generateCashFlows_point:
  assumes "1 \<le> t" "t \<le> years"
  shows "year (generateCashFlows mp cd g years ! nat t) = t \<and>
         dividend (generateCashFlows mp cd g years ! nat t) =
           jmul cd (jpow (jadd (Fin 1) g) (nat t)) \<and>
         investment (generateCashFlows mp cd g years ! nat t) = Fin 0 \<and>
         totalCashFlow (generateCashFlows mp cd g years ! nat t) =
           jmul cd (jpow (jadd (Fin 1) g) (nat t))"
proof -
  from assms have t: "nat t = length [undefined :: cashFlow] + nat (t - 1)" by simp
  from assms have "1 + int (nat (t - 1)) \<le> years" by simp
  from cashFlowLoop_point [OF this, where cfs = "[x]" for x] assms show ?thesis
    unfolding generateCashFlows_def by (simp add: nat_diff_distrib)
qed

lemma generateCashFlows_years:
  assumes "0 \<le> years"
  shows "map year (generateCashFlows mp cd g years) = [0..years]"
proof (rule nth_equalityI)
  show "length (map year (generateCashFlows mp cd g years)) = length [0..years]"
    using assms by (simp add: generateCashFlows_length)
next
  fix i assume "i < length (map year (generateCashFlows mp cd g years))"
  then have i: "int i \<le> years" using assms by (simp add: generateCashFlows_length)
  show "map year (generateCashFlows mp cd g years) ! i = [0..years] ! i"
  proof (cases i)
    case 0
    then show ?thesis using assms i
      by (simp add: generateCashFlows_length generateCashFlows_first)
  next
    case (Suc k)
    then have "1 \<le> int i" by simp
    from generateCashFlows_point [OF this i, of mp cd g] assms i show ?thesis
      by (simp add: generateCashFlows_length)
  qed
qed


section \<open>The required return\<close>

text \<open>
  Claim C1. For every input triple, \<open>calculateRequiredReturn\<close> returns
  \<open>growthRateDecimal = growthRate / 100\<close>, \<open>d1 = currentDividend * (1 + g)\<close>,
  \<open>dividendYieldDecimal = d1 / marketPrice\<close>,
  \<open>requiredReturnDecimal = dividendYieldDecimal + g\<close>, and the two percentages are 100 times
  their decimals. For a market price of 50, a dividend of 2 and a growth rate of 5 the
  required return is a finite number within 0.1 of 9.2 (it is 9.2).
\<close>

theorem required_return_formula:
  "(let r = calculateRequiredReturn mp cd gr in
      growthRateDecimal r = jdiv gr (Fin 100) \<and>
      d1 r = jmul cd (jadd (Fin 1) (growthRateDecimal r)) \<and>
      dividendYieldDecimal r = jdiv (d1 r) mp \<and>
      requiredReturnDecimal r = jadd (dividendYieldDecimal r) (growthRateDecimal r) \<and>
      requiredReturn r = jmul (requiredReturnDecimal r) (Fin 100) \<and>
      dividendYield r = jmul (dividendYieldDecimal r) (Fin 100)) \<and>
   (\<exists>x. requiredReturn (calculateRequiredReturn (Fin 50) (Fin 2) (Fin 5)) = Fin x \<and>
        \<bar>x - 9.2\<bar> \<le> 0.1)"
proof -
  have "requiredReturn (calculateRequiredReturn (Fin 50) (Fin 2) (Fin 5)) = Fin 9.2"
    by (simp add: calculateRequiredReturn_def Let_def)
  moreover have "\<bar>9.2 - 9.2\<bar> \<le> (0.1::real)" by simp
  ultimately have "\<exists>x. requiredReturn (calculateRequiredReturn (Fin 50) (Fin 2) (Fin 5)) = Fin x \<and>
        \<bar>x - 9.2\<bar> \<le> 0.1"
    by blast
  then show ?thesis by (simp add: calculateRequiredReturn_def Let_def del: ex_simps)
qed

text \<open>
  Claim C6. \<open>isValid\<close> is true exactly when \<open>requiredReturnDecimal > 0\<close> and
  \<open>growthRateDecimal < requiredReturnDecimal\<close>; it is false whenever
  \<open>growthRateDecimal >= requiredReturnDecimal\<close>.
\<close>

theorem isValid_iff:
  "(isValid (calculateRequiredReturn mp cd gr) \<longleftrightarrow>
      jgt (requiredReturnDecimal (calculateRequiredReturn mp cd gr)) (Fin 0) \<and>
      jlt (growthRateDecimal (calculateRequiredReturn mp cd gr))
          (requiredReturnDecimal (calculateRequiredReturn mp cd gr))) \<and>
   (jge (growthRateDecimal (calculateRequiredReturn mp cd gr))
        (requiredReturnDecimal (calculateRequiredReturn mp cd gr)) \<longrightarrow>
      \<not> isValid (calculateRequiredReturn mp cd gr))"
  by (auto simp: calculateRequiredReturn_def Let_def dest: jlt_not_jge)

theorem isValid_iff_witness:
  "jge (growthRateDecimal (calculateRequiredReturn (Fin 100) (Fin 0) (Fin 5)))
       (requiredReturnDecimal (calculateRequiredReturn (Fin 100) (Fin 0) (Fin 5))) \<and>
   \<not> isValid (calculateRequiredReturn (Fin 100) (Fin 0) (Fin 5))"
proof -
  have h: "jge (growthRateDecimal (calculateRequiredReturn (Fin 100) (Fin 0) (Fin 5)))
               (requiredReturnDecimal (calculateRequiredReturn (Fin 100) (Fin 0) (Fin 5)))"
    by (simp add: calculateRequiredReturn_def Let_def jge_def)
  from isValid_iff [of "Fin 100" "Fin 0" "Fin 5"] h show ?thesis by blast
qed

text \<open>
  Claim C10. With a current dividend of 0, \<open>isValid\<close> is false for every market price
  and every growth rate: the required return is then the growth rate itself (or NaN, when
  the yield \<open>0 / marketPrice\<close> or the dividend \<open>0 * (1 + g)\<close> is), so the strict
  comparison fails. A current dividend of 0 passes the validator all the same.
\<close>

theorem zero_dividend_never_valid:
  "isValid (calculateRequiredReturn mp (Fin 0) gr) = False \<and>
   (requiredReturnDecimal (calculateRequiredReturn mp (Fin 0) gr) =
      growthRateDecimal (calculateRequiredReturn mp (Fin 0) gr) \<or>
    requiredReturnDecimal (calculateRequiredReturn mp (Fin 0) gr) = NaN) \<and>
   validateField ''currentDividend'' (Num (Fin 0)) = None"
proof -
  have "isValid (calculateRequiredReturn mp (Fin 0) gr) = False"
    by (cases mp; cases gr)
       (auto simp: calculateRequiredReturn_def Let_def jgt_def signed_def)
  moreover
  have "requiredReturnDecimal (calculateRequiredReturn mp (Fin 0) gr) =
          growthRateDecimal (calculateRequiredReturn mp (Fin 0) gr) \<or>
        requiredReturnDecimal (calculateRequiredReturn mp (Fin 0) gr) = NaN"
    by (cases mp; cases gr)
       (auto simp: calculateRequiredReturn_def Let_def signed_def)
  moreover
  have "validateField ''currentDividend'' (Num (Fin 0)) = None"
    by (simp add: validateField_def VALIDATION_RULES_def isNaN_def jgt_def)
  ultimately show ?thesis by blast
qed

text \<open>
  Claim C9. \<open>calculateGordonPrice d1 r g\<close> throws exactly when \<open>g >= r\<close>; when
  \<open>g < r\<close> it returns \<open>d1 / (r - g)\<close>, the quotient that the division of the code
  gives for the difference that its subtraction gives. The function takes no state and
  returns none.
\<close>

theorem gordon_price_throws_iff:
  "(isl (calculateGordonPrice d r g) \<longleftrightarrow> jge g r) \<and>
   (jlt g r \<longrightarrow> calculateGordonPrice d r g = Inr (jdiv d (jsub r g)))"
  by (auto simp: calculateGordonPrice_def dest: jlt_not_jge)

text \<open>
  A growth rate of 0.05 below a required return of 0.092 gives the quotient; a growth rate
  equal to the required return throws.
\<close>

theorem gordon_price_throws_iff_witness:
  "jlt (Fin 0.05) (Fin 0.092) \<and>
   calculateGordonPrice (Fin 2.1) (Fin 0.092) (Fin 0.05) =
     Inr (jdiv (Fin 2.1) (jsub (Fin 0.092) (Fin 0.05))) \<and>
   jge (Fin 0.05) (Fin 0.05) \<and>
   isl (calculateGordonPrice (Fin 2.1) (Fin 0.05) (Fin 0.05))"
proof -
  have h: "jlt (Fin 0.05) (Fin 0.092)" by simp
  have k: "jge (Fin 0.05) (Fin 0.05)" by (simp add: jge_def)
  from gordon_price_throws_iff [of "Fin 2.1" "Fin 0.092" "Fin 0.05"] h
  have a: "calculateGordonPrice (Fin 2.1) (Fin 0.092) (Fin 0.05) =
           Inr (jdiv (Fin 2.1) (jsub (Fin 0.092) (Fin 0.05)))"
    by blast
  from gordon_price_throws_iff [of "Fin 2.1" "Fin 0.05" "Fin 0.05"] k
  have b: "isl (calculateGordonPrice (Fin 2.1) (Fin 0.05) (Fin 0.05))" by blast
  from h a k b show ?thesis by blast
qed

section \<open>The cash-flow projection\<close>

text \<open>
  Claim C3. For every input of \<open>generateCashFlows\<close> and every index \<open>N\<close> into the
  sequence it returns, the \<open>cumulativeCashFlow\<close> of the point at \<open>N\<close> is the sum of the
  \<open>totalCashFlow\<close> values of the points at the indices 0 to \<open>N\<close>.
\<close>

theorem cumulative_is_running_sum:
  "N < length (generateCashFlows mp cd g years) \<Longrightarrow>
   cumulativeCashFlow (generateCashFlows mp cd g years ! N) =
     sumTotalCashFlow_spec (take (Suc N) (generateCashFlows mp cd g years))"
  unfolding generateCashFlows_def
  by (rule cashFlowLoop_running) (simp_all add: sumTotalCashFlow_spec_def jadd_zero)

text \<open>
  The projection over two years of a price of 50 and a dividend of 2 growing at 5%:
  the third point carries \<open>-50 + 2.1 + 2.205\<close>.
\<close>

theorem cumulative_is_running_sum_witness:
  "2 < length (generateCashFlows (Fin 50) (Fin 2) (Fin 0.05) 2) \<and>
   cumulativeCashFlow (generateCashFlows (Fin 50) (Fin 2) (Fin 0.05) 2 ! 2) = Fin (-45.695)"
  using cumulative_is_running_sum [of 2 "Fin 50" "Fin 2" "Fin 0.05" 2]
  by (simp add: generateCashFlows_def cashFlowLoop.simps Let_def power2_eq_square)

text \<open>
  Claim C4. For every market price, current dividend, growth rate and non-negative
  integer \<open>years\<close>, \<open>generateCashFlows\<close> returns \<open>years + 1\<close> points whose years are
  0 to \<open>years\<close> in order. The first point has a dividend of 0 and the negated market price
  as investment, total and cumulative cash flow. The point of a year \<open>t\<close> from 1 to
  \<open>years\<close> has the dividend \<open>currentDividend * Math.pow(1 + g, t)\<close>, no investment, and
  the dividend as its total. With the default of 10 years there are 11 points.
\<close>

theorem projection_shape:
  "0 \<le> years \<Longrightarrow>
   length (generateCashFlows mp cd g years) = nat years + 1 \<and>
   map year (generateCashFlows mp cd g years) = [0..years] \<and>
   generateCashFlows mp cd g years ! 0 =
     \<lparr> year = 0, dividend = Fin 0, investment = jneg mp,
       totalCashFlow = jneg mp, cumulativeCashFlow = jneg mp \<rparr> \<and>
   (\<forall>t. 1 \<le> t \<and> t \<le> years \<longrightarrow>
      dividend (generateCashFlows mp cd g years ! nat t) =
        jmul cd (jpow (jadd (Fin 1) g) (nat t)) \<and>
      investment (generateCashFlows mp cd g years ! nat t) = Fin 0 \<and>
      totalCashFlow (generateCashFlows mp cd g years ! nat t) =
        dividend (generateCashFlows mp cd g years ! nat t)) \<and>
   length (generateCashFlowsDefault mp cd g) = 11"
proof (intro conjI allI impI)
  assume y: "0 \<le> years"
  show "length (generateCashFlows mp cd g years) = nat years + 1"
    using y by (rule generateCashFlows_length)
  show "map year (generateCashFlows mp cd g years) = [0..years]"
    using y by (rule generateCashFlows_years)
  show "generateCashFlows mp cd g years ! 0 =
     \<lparr> year = 0, dividend = Fin 0, investment = jneg mp,
       totalCashFlow = jneg mp, cumulativeCashFlow = jneg mp \<rparr>"
    by (rule generateCashFlows_first)
  show "length (generateCashFlowsDefault mp cd g) = 11"
    by (simp add: generateCashFlowsDefault_def generateCashFlows_length)
next
  fix t assume t: "1 \<le> t \<and> t \<le> years"
  then have p: "1 \<le> t" "t \<le> years" by simp_all
  show "dividend (generateCashFlows mp cd g years ! nat t) =
        jmul cd (jpow (jadd (Fin 1) g) (nat t))"
    using generateCashFlows_point [OF p] by simp
  show "investment (generateCashFlows mp cd g years ! nat t) = Fin 0"
    using generateCashFlows_point [OF p] by simp
  show "totalCashFlow (generateCashFlows mp cd g years ! nat t) =
        dividend (generateCashFlows mp cd g years ! nat t)"
    using generateCashFlows_point [OF p, of mp cd g] by simp
qed

theorem projection_shape_witness:
  "(0::int) \<le> 2 \<and> (1::int) \<le> 2 \<and>
   length (generateCashFlows (Fin 50) (Fin 2) (Fin 0.05) 2) = 3 \<and>
   map year (generateCashFlows (Fin 50) (Fin 2) (Fin 0.05) 2) = [0, 1, 2] \<and>
   dividend (generateCashFlows (Fin 50) (Fin 2) (Fin 0.05) 2 ! 2) =
     jmul (Fin 2) (jpow (jadd (Fin 1) (Fin 0.05)) 2) \<and>
   investment (generateCashFlows (Fin 50) (Fin 2) (Fin 0.05) 2 ! 2) = Fin 0 \<and>
   totalCashFlow (generateCashFlows (Fin 50) (Fin 2) (Fin 0.05) 2 ! 2) =
     dividend (generateCashFlows (Fin 50) (Fin 2) (Fin 0.05) 2 ! 2)"
proof -
  have y: "(0::int) \<le> 2" by simp
  have u: "[0..2::int] = [0, 1, 2]" by (simp add: upto.simps)
  from projection_shape [OF y, of "Fin 50" "Fin 2" "Fin 0.05"]
  have a: "length (generateCashFlows (Fin 50) (Fin 2) (Fin 0.05) 2) = 3"
    and b: "map year (generateCashFlows (Fin 50) (Fin 2) (Fin 0.05) 2) = [0..2]"
    and d: "\<forall>t. 1 \<le> t \<and> t \<le> 2 \<longrightarrow>
      dividend (generateCashFlows (Fin 50) (Fin 2) (Fin 0.05) 2 ! nat t) =
        jmul (Fin 2) (jpow (jadd (Fin 1) (Fin 0.05)) (nat t)) \<and>
      investment (generateCashFlows (Fin 50) (Fin 2) (Fin 0.05) 2 ! nat t) = Fin 0 \<and>
      totalCashFlow (generateCashFlows (Fin 50) (Fin 2) (Fin 0.05) 2 ! nat t) =
        dividend (generateCashFlows (Fin 50) (Fin 2) (Fin 0.05) 2 ! nat t)"
    by simp_all
  have n: "nat (2::int) = 2" by simp
  from d [rule_format, of 2]
  have e: "dividend (generateCashFlows (Fin 50) (Fin 2) (Fin 0.05) 2 ! 2) =
             jmul (Fin 2) (jpow (jadd (Fin 1) (Fin 0.05)) 2) \<and>
           investment (generateCashFlows (Fin 50) (Fin 2) (Fin 0.05) 2 ! 2) = Fin 0 \<and>
           totalCashFlow (generateCashFlows (Fin 50) (Fin 2) (Fin 0.05) 2 ! 2) =
             dividend (generateCashFlows (Fin 50) (Fin 2) (Fin 0.05) 2 ! 2)"
    unfolding n by simp
  from y a b u e show ?thesis by simp
qed

text \<open>
  Claim C5. In the result of \<open>calculateRequiredReturnMetrics\<close> the dividend of the
  cash-flow point of year 1 is the \<open>d1\<close> field, which is the \<open>d1\<close> that
  \<open>calculateRequiredReturn\<close> computes, the cash flows being the projection over 10 years
  at the growth rate of that calculation; the same holds of any projection of at least
  one year made with that growth rate.
\<close>

theorem year_one_dividend_is_d1:
  "dividend (cashFlows (calculateRequiredReturnMetrics mp cd gr) ! 1) =
     d1 (calculateRequiredReturnMetrics mp cd gr) \<and>
   d1 (calculateRequiredReturnMetrics mp cd gr) = d1 (calculateRequiredReturn mp cd gr) \<and>
   cashFlows (calculateRequiredReturnMetrics mp cd gr) =
     generateCashFlows mp cd (growthRateDecimal (calculateRequiredReturn mp cd gr)) 10 \<and>
   (1 \<le> years \<longrightarrow>
      dividend (generateCashFlows mp cd
                  (growthRateDecimal (calculateRequiredReturn mp cd gr)) years ! 1) =
        d1 (calculateRequiredReturn mp cd gr))"
proof -
  have d: "d1 (calculateRequiredReturn mp cd gr) =
           jmul cd (jadd (Fin 1) (growthRateDecimal (calculateRequiredReturn mp cd gr)))"
    by (simp add: calculateRequiredReturn_def Let_def)
  have p: "dividend (generateCashFlows mp cd g ys ! 1) = jmul cd (jadd (Fin 1) g)"
    if "1 \<le> ys" for g ys
    using generateCashFlows_point [of 1 ys mp cd g] that by (simp add: jpow_one)
  have m: "cashFlows (calculateRequiredReturnMetrics mp cd gr) =
           generateCashFlows mp cd (growthRateDecimal (calculateRequiredReturn mp cd gr)) 10"
    by (simp add: calculateRequiredReturnMetrics_def Let_def returnData.defs)
  have e: "d1 (calculateRequiredReturnMetrics mp cd gr) = d1 (calculateRequiredReturn mp cd gr)"
    by (simp add: calculateRequiredReturnMetrics_def Let_def returnData.defs)
  show ?thesis using d p [of 10] p [of years] m e by simp
qed

theorem year_one_dividend_is_d1_witness:
  "(1::int) \<le> 10 \<and>
   dividend (generateCashFlows (Fin 50) (Fin 2)
     (growthRateDecimal (calculateRequiredReturn (Fin 50) (Fin 2) (Fin 5))) 10 ! 1) = Fin 2.1 \<and>
   d1 (calculateRequiredReturn (Fin 50) (Fin 2) (Fin 5)) = Fin 2.1"
  using year_one_dividend_is_d1 [of "Fin 50" "Fin 2" "Fin 5" 10]
  by (simp add: calculateRequiredReturn_def Let_def)

section \<open>The validator\<close>

lemma marketPrice_rule: "map_of VALIDATION_RULES ''marketPrice'' =
   Some \<lparr> min_rule = Some 1, max_rule = Some 500, required = True,
           label = ''Market price'', prefix = Some ''USD'', unit = None \<rparr>"
  by (simp add: VALIDATION_RULES_def)

text \<open>Every entry of the table is a required field.\<close>

lemma rules_required: "map_of VALIDATION_RULES field = Some rules \<Longrightarrow> required rules"
  by (auto simp: VALIDATION_RULES_def split: if_splits)

text \<open>
  Claim C8. \<open>validateField\<close> checks required before range, and the bounds are
  inclusive: for \<open>marketPrice\<close> the value 0 gives an error message, 1 and 500 give none,
  500.01 gives the range message (a finite value passes exactly when it lies in
  \<open>[1, 500]\<close>). For a required field a missing, null, empty or NaN value gives the
  required message, whatever a range check would say of it.
\<close>

theorem validateField_boundaries:
  "validateField ''marketPrice'' (Num (Fin 0)) =
     Some ''Market price must be between USD 1 and USD 500'' \<and>
   validateField ''marketPrice'' (Num (Fin 1)) = None \<and>
   validateField ''marketPrice'' (Num (Fin 500)) = None \<and>
   validateField ''marketPrice'' (Num (Fin 500.01)) =
     Some ''Market price must be between USD 1 and USD 500'' \<and>
   (validateField ''marketPrice'' (Num (Fin x)) = None \<longleftrightarrow> 1 \<le> x \<and> x \<le> 500) \<and>
   (\<forall>field rules v. map_of VALIDATION_RULES field = Some rules \<and> required rules \<and>
        (v = Undefined \<or> v = Null \<or> v = EmptyString \<or> v = Num NaN) \<longrightarrow>
      validateField field v = Some (label rules @ '' is required''))"
proof -
  have range: "validateField ''marketPrice'' (Num (Fin y)) =
        (if y < 1 \<or> 500 < y then Some ''Market price must be between USD 1 and USD 500''
         else None)" for y
    by (simp add: validateField_def VALIDATION_RULES_def isNaN_def jgt_def rangeMessage_def
          display_def showBound_def digit_def)
  have req: "validateField field v = Some (label rules @ '' is required'')"
    if "map_of VALIDATION_RULES field = Some rules \<and> required rules \<and>
        (v = Undefined \<or> v = Null \<or> v = EmptyString \<or> v = Num NaN)" for field rules v
    using that by (auto simp: validateField_def isNaN_def)
  show ?thesis using req by (auto simp: range)
qed

text \<open>
  \<^verbatim>\<open>null\<close> converts to 0, which lies below the minimum of \<open>marketPrice\<close>: the range
  check would reject it too, and the message is the required one.
\<close>

theorem validateField_boundaries_witness:
  "map_of VALIDATION_RULES ''marketPrice'' \<noteq> None \<and>
   required (the (map_of VALIDATION_RULES ''marketPrice'')) \<and>
   jlt (toNumber Null) (Fin 1) \<and>
   validateField ''marketPrice'' Null = Some ''Market price is required'' \<and>
   validateField ''marketPrice'' Undefined = Some ''Market price is required'' \<and>
   validateField ''marketPrice'' (Num NaN) = Some ''Market price is required''"
proof -
  note r = validateField_boundaries [THEN conjunct2, THEN conjunct2, THEN conjunct2, THEN conjunct2,
               THEN conjunct2, rule_format, of "''marketPrice''"]
  have a: "validateField ''marketPrice'' Null = Some ''Market price is required''"
    using r [of _ Null] by (simp add: marketPrice_rule)
  have b: "validateField ''marketPrice'' Undefined = Some ''Market price is required''"
    using r [of _ Undefined] by (simp add: marketPrice_rule)
  have c: "validateField ''marketPrice'' (Num NaN) = Some ''Market price is required''"
    using r [of _ "Num NaN"] by (simp add: marketPrice_rule)
  from a b c show ?thesis by (simp add: marketPrice_rule)
qed


section \<open>The store\<close>







text \<open>
  Observers that return without changing the store are all called, in order, each with
  the same state. An observer that throws is the last one called.
\<close>

lemma forEach_unchanged:
  "\<forall>fn\<in>set fns. run fn m = Returns m \<Longrightarrow>
   forEach run fns m = (m, map (\<lambda>fn. (fn, m)) fns, Normal)"
  by (induction fns) simp_all

lemma forEach_throws:
  "\<forall>fn\<in>set pre. run fn m = Returns m \<Longrightarrow> run f m = Throws m' \<Longrightarrow>
   forEach run (pre @ f # post) m = (m', map (\<lambda>fn. (fn, m)) pre @ [(f, m)], Thrown)"
  by (induction pre) simp_all

lemma setState_inert:
  "setState inert s updates =
     (Object_assign s updates,
      map (\<lambda>fn. (fn, Object_assign s updates)) (listeners (Object_assign s updates)), Normal)"
  by (simp add: setState_def Let_def forEach_unchanged inert_def)




section \<open>The orchestrator\<close>

text \<open>
  With observers that leave the store alone: whenever the handler of an input leaves
  errors in the state, it leaves \<open>returnCalculations\<close> as it found it. The only call that
  clears the result for a state with errors, \<^verbatim>\<open>setState({ returnCalculations: null })\<close>
  at the head of \<open>updateCalculations\<close>, is behind the handler's test that there are no
  errors.
\<close>

lemma debouncedUpdate_keeps_result:
  "hasErrors (errors (fst (debouncedUpdate inert field val s))) \<Longrightarrow>
   returnCalculations (fst (debouncedUpdate inert field val s)) = returnCalculations s"
  by (auto simp: debouncedUpdate_def setState_inert Object_assign_def Let_def fieldProp_def
        updateCalculations_def hasErrors_def split: if_splits prod.splits)

text \<open>
  Claim C2: after the handler has processed an input that fails validation,
  \<open>returnCalculations\<close> is absent, even if a result was computed before. The code does
  otherwise. The state after start-up holds the result for the default inputs; a market
  price of 0 then fails validation, the errors of the new state are not empty, and the
  result for the default inputs is still there.
\<close>

theorem stale_result_survives_invalid_input:
  "returnCalculations (fst (updateCalculations inert (subscribe (initialState :: nat state) 0))) =
     Some (calculateRequiredReturnMetrics (Fin 54.56) (Fin 5.10) (Fin 6.40)) \<and>
   validateField ''marketPrice'' (Num (Fin 0)) =
     Some ''Market price must be between USD 1 and USD 500'' \<and>
   hasErrors (errors (fst (debouncedUpdate inert ''marketPrice'' (Fin 0)
     (fst (updateCalculations inert (subscribe (initialState :: nat state) 0)))))) \<and>
   returnCalculations (fst (debouncedUpdate inert ''marketPrice'' (Fin 0)
     (fst (updateCalculations inert (subscribe (initialState :: nat state) 0))))) =
     Some (calculateRequiredReturnMetrics (Fin 54.56) (Fin 5.10) (Fin 6.40))"
proof -
  have v: "validateField ''marketPrice'' (Num (Fin 0)) =
     Some ''Market price must be between USD 1 and USD 500''"
    by (simp add: validateField_def VALIDATION_RULES_def isNaN_def jgt_def rangeMessage_def
          display_def showBound_def digit_def)
  have i: "fst (updateCalculations inert (subscribe initialState (0::nat))) =
           (subscribe initialState 0)\<lparr> returnCalculations :=
              Some (calculateRequiredReturnMetrics (Fin 54.56) (Fin 5.10) (Fin 6.40)) \<rparr>"
    by (simp add: updateCalculations_def subscribe_def initialState_def hasErrors_def
          setState_inert Object_assign_def Let_def)
  show ?thesis
    unfolding i
    by (simp add: v debouncedUpdate_def truthy_def hasErrors_def setState_inert Object_assign_def
          Let_def fieldProp_def subscribe_def initialState_def)
qed

end
